theory Spec2Isabelle
  imports Main "HOL-Library.Word" "HOL-Library.AList"
begin

section \<open>Data model\<close>

text \<open>
  Go's fixed-width integers are machine words: \<open>+\<close> and \<open>-\<close> wrap around, \<open>sint\<close> reads an
  \<open>int32\<close>, \<open>unat\<close> a \<open>uint32\<close>. The conversions \<open>int32(x)\<close> and \<open>uint32(x)\<close> between the two
  32-bit types keep the bits, so both are the identity on \<open>32 word\<close>.
\<close>

type_synonym int32 = "32 word"
type_synonym uint32 = "32 word"
type_synonym uint8 = "8 word"
type_synonym bytes = "8 word list"

subsection \<open>Settings tables and the store of Go maps\<close>

text \<open>
  \<open>SettingsID\<close> is declared in the frame package; conn.go and the defaults file name two of its
  values. Every other identifier is \<open>SETTINGS_OTHER\<close>.
\<close>

datatype SettingsID =
    SETTINGS_MAX_CONCURRENT_STREAMS
  | SETTINGS_INITIAL_WINDOW_SIZE
  | SETTINGS_OTHER nat

text \<open>
  The values of a settings map are \<open>int32\<close> in conn.go (\<open>map[SettingsID]int32\<close>), which is the
  type \<open>HandleSettings\<close> computes and compares with; the literal that declares
  \<open>DefaultSettings\<close> writes the same 32 bits as \<open>uint32\<close>.

  A Go map is a reference: assigning it (\<open>conn.Settings = settings\<close>, \<open>Settings: DefaultSettings\<close>)
  copies the reference, not the table. The store maps each reference to the table it denotes;
  \<open>m[k] = v\<close> updates the store at the reference of \<open>m\<close> and is seen through every alias.
\<close>

type_synonym SettingsTable = "SettingsID \<rightharpoonup> int32"
type_synonym ref = nat
type_synonym store = "ref \<Rightarrow> SettingsTable"

text \<open>
  Modelled from the spec: \<open>DEFAULT_WINDOW_SIZE\<close> is a constant of the frame package, which is
  not among the sources; the spec gives the default initial window size as 65535.
\<close>

definition DEFAULT_WINDOW_SIZE :: int32 where
  "DEFAULT_WINDOW_SIZE = 65535"

text \<open>
  The package-level variables \<open>DefaultSettings\<close> and \<open>NilSettings\<close> are two maps allocated once,
  when the package is initialised; \<open>init_store\<close> is the store at that moment.
\<close>

definition DefaultSettings :: ref where
  "DefaultSettings = 0"

definition NilSettings :: ref where
  "NilSettings = 1"

definition init_store :: store where
  "init_store = (\<lambda>r. Map.empty)
     (DefaultSettings := [SETTINGS_MAX_CONCURRENT_STREAMS \<mapsto> 100,
                          SETTINGS_INITIAL_WINDOW_SIZE \<mapsto> DEFAULT_WINDOW_SIZE],
      NilSettings := Map.empty)"

text \<open>\<open>m[k] = v\<close> on the map behind reference \<open>r\<close>.\<close>

definition map_assign :: "store \<Rightarrow> ref \<Rightarrow> SettingsID \<Rightarrow> int32 \<Rightarrow> store" where
  "map_assign h r k v = h(r := (h r)(k \<mapsto> v))"

subsection \<open>Frames\<close>

text \<open>
  The frame codec is an external package. A frame is one of its concrete types behind the
  \<open>Frame\<close> interface; every one of them carries the common header. The header's \<open>Length\<close> is
  an unsigned field (stream.go stores \<open>uint16(len(...))\<close> in it, conn.go reads \<open>int32(Length)\<close>):
  it is a natural number here and each conversion is written out where it happens.
\<close>

datatype FrameType =
    DataFrameType
  | HeadersFrameType
  | RstStreamFrameType
  | SettingsFrameType
  | GoAwayFrameType
  | WindowUpdateFrameType
  | OtherFrameType nat

record FrameHeader =
  Length :: nat
  Type :: FrameType
  Flags :: uint8
  StreamID :: uint32

text \<open>
  Modelled from the spec: the flag constant \<open>UNSET\<close> belongs to the frame package, which is not
  among the sources. By the protocol's wire contract it is the flags byte with no flag set.
\<close>

definition UNSET :: uint8 where
  "UNSET = 0"

text \<open>
  Modelled from the spec: \<open>ACK\<close> (frame package, not among the sources) is the acknowledgment
  flag of a settings frame, bit \<open>0x1\<close> on the wire.
\<close>

definition ACK :: uint8 where
  "ACK = 1"

text \<open>
  Modelled from the spec: \<open>END_STREAM\<close> (frame package, not among the sources) is the
  end-of-stream flag, bit \<open>0x1\<close> on the wire; stream.go compares with the literal \<open>0x1\<close>.
\<close>

definition END_STREAM :: uint8 where
  "END_STREAM = 1"

text \<open>
  Modelled from the spec: \<open>END_HEADERS\<close> (frame package, not among the sources) is the
  end-of-headers flag, bit \<open>0x4\<close> on the wire.
\<close>

definition END_HEADERS :: uint8 where
  "END_HEADERS = 4"

text \<open>\<open>http.Header\<close> is \<open>map[string][]string\<close>; it is only read and replaced, never updated in place.\<close>

type_synonym http_Header = "string \<rightharpoonup> string list"

text \<open>
  The parts of \<open>http.Request\<close> and \<open>http.Response\<close> that stream.go reads and writes. A
  request's \<open>Body\<close> is nil (\<open>None\<close>) or a reader, given by the bytes it yields. The constant
  fields of the response (\<open>Proto\<close>, \<open>ProtoMajor\<close>, \<open>ProtoMinor\<close>, \<open>TransferEncoding\<close>, \<open>Close\<close>,
  \<open>Trailer\<close>) are left out.
\<close>

record Request =
  Method :: string
  Header :: http_Header
  Body :: "bytes option"

record Response =
  Status :: string
  StatusCode :: int
  Header :: http_Header
  Body :: bytes
  ContentLength :: int
  Request :: "Request option"

datatype Frame =
    DataFrame FrameHeader bytes
  | HeadersFrame FrameHeader http_Header bytes
  | RstStreamFrame FrameHeader
  | SettingsFrame FrameHeader ref
  | GoAwayFrame FrameHeader
  | WindowUpdateFrame FrameHeader uint32
  | OtherFrame FrameHeader

text \<open>
  The arguments are: \<open>DataFrame\<close> the header and \<open>Data\<close>; \<open>HeadersFrame\<close> the header, \<open>Headers\<close>
  and \<open>HeaderBlock\<close>; \<open>SettingsFrame\<close> the header and the reference of its \<open>Settings\<close> map;
  \<open>WindowUpdateFrame\<close> the header and \<open>WindowSizeIncrement\<close>.
\<close>

fun Header :: "Frame \<Rightarrow> FrameHeader" where
  "Header (DataFrame fh d) = fh"
| "Header (HeadersFrame fh hs hb) = fh"
| "Header (RstStreamFrame fh) = fh"
| "Header (SettingsFrame fh st) = fh"
| "Header (GoAwayFrame fh) = fh"
| "Header (WindowUpdateFrame fh inc) = fh"
| "Header (OtherFrame fh) = fh"

text \<open>
  Modelled from the spec: the constructors of the frame package are not among the sources.
  Each returns a frame of its type with the flags, stream identifier and payload it is given;
  \<open>Length\<close> is left at its zero value (stream.go sets it itself after the call).
  \<open>NewSettingsFrame\<close> takes the flags, the stream identifier and the settings map.
\<close>

definition NewSettingsFrame :: "uint8 \<Rightarrow> uint32 \<Rightarrow> ref \<Rightarrow> Frame" where
  "NewSettingsFrame flags streamid settings =
     SettingsFrame \<lparr>Length = 0, Type = SettingsFrameType, Flags = flags, StreamID = streamid\<rparr> settings"

text \<open>
  Modelled from the spec: \<open>NewWindowUpdateFrame\<close> (frame package, not among the sources) takes
  the stream identifier and the window size increment.
\<close>

definition NewWindowUpdateFrame :: "uint32 \<Rightarrow> uint32 \<Rightarrow> Frame" where
  "NewWindowUpdateFrame streamid incr =
     WindowUpdateFrame \<lparr>Length = 0, Type = WindowUpdateFrameType, Flags = UNSET, StreamID = streamid\<rparr> incr"

text \<open>
  Modelled from the spec: \<open>NewHeadersFrame\<close> (frame package, not among the sources) takes the
  flags and the stream identifier; stream.go then sets \<open>Headers\<close>, \<open>HeaderBlock\<close> and \<open>Length\<close>,
  so the header alone is returned here.
\<close>

definition NewHeadersFrame :: "uint8 \<Rightarrow> uint32 \<Rightarrow> FrameHeader" where
  "NewHeadersFrame flags streamid =
     \<lparr>Length = 0, Type = HeadersFrameType, Flags = flags, StreamID = streamid\<rparr>"

text \<open>
  Modelled from the spec: \<open>NewDataFrame\<close> (frame package, not among the sources) takes the
  flags and the stream identifier; \<open>Data\<close> is empty and \<open>Length\<close> zero until stream.go sets them.
\<close>

definition NewDataFrame :: "uint8 \<Rightarrow> uint32 \<Rightarrow> FrameHeader" where
  "NewDataFrame flags streamid =
     \<lparr>Length = 0, Type = DataFrameType, Flags = flags, StreamID = streamid\<rparr>"

subsection \<open>Channels and panics\<close>

text \<open>
  A channel is the sequence of frames sent on it and not yet received, and whether it has been
  closed. A send on a closed channel and a second close panic, as in Go; a send on an open
  channel appends (the sender waits until the receiving loop takes the frame).

  \<open>conn.WriteChan\<close> is made with capacity 0 (conn.go, line 37), so a frame not yet received
  is the frame of a sender that still waits. Closing the channel makes every waiting sender
  panic, and its frame is never received: the closed channel holds no frame.
\<close>

record 'a chan =
  buf :: "'a list"
  closed :: bool

datatype panic =
    NilPointerDereference
  | SendOnClosedChannel
  | CloseOfClosedChannel
  | TypeAssertionFailed
  | FatalError

definition make_chan :: "'a chan" where
  "make_chan = \<lparr>buf = [], closed = False\<rparr>"

definition send :: "'a chan \<Rightarrow> 'a \<Rightarrow> panic + 'a chan" where
  "send ch x = (if closed ch then Inl SendOnClosedChannel else Inr (ch\<lparr>buf := buf ch @ [x]\<rparr>))"

definition close_chan :: "'a chan \<Rightarrow> panic + 'a chan" where
  "close_chan ch =
     (if closed ch then Inl CloseOfClosedChannel else Inr (ch\<lparr>buf := [], closed := True\<rparr>))"

subsection \<open>Window, Stream, Conn\<close>

text \<open>
  Modelled from the spec: the \<open>Window\<close> type is not among the sources. The spec gives it four
  attributes, which are the four \<open>int32\<close> fields conn.go reads and writes.
\<close>

record Window =
  InitialSize :: int32
  CurrentSize :: int32
  PeerCurrentSize :: int32
  Threshold :: int32

text \<open>
  Modelled from the spec: the type of a stream's \<open>State\<close> is not among the sources; the spec
  gives its five values, of which conn.go names \<open>CLOSED\<close>.
\<close>

datatype StreamState = IDLE | OPEN | HALF_CLOSED_LOCAL | HALF_CLOSED_REMOTE | CLOSED

text \<open>
  Modelled from the spec: the \<open>Stream\<close> type that conn.go uses is not among the sources
  (stream.go holds an earlier adapter, modelled further down). Its fields are the ones conn.go
  touches: \<open>ID\<close>, \<open>State\<close>, \<open>Window\<close>, \<open>PeerSettings\<close>, \<open>ReadChan\<close>, and \<open>Settings\<close>, which
  \<open>conn.NewStream\<close> hands over next to \<open>PeerSettings\<close>. Both settings fields are references to
  maps.
\<close>

record Stream =
  ID :: uint32
  State :: StreamState
  Window :: Window
  Settings :: ref
  PeerSettings :: ref
  ReadChan :: "Frame chan"

text \<open>
  \<open>Conn\<close> without its transport, header-compression context and callback, which none of the
  modelled functions reads. \<open>Streams\<close> is \<open>map[uint32]*Stream\<close>: the keys are unique, and a value
  is a stream or the nil pointer (\<open>None\<close>). An entry whose value is nil is still an entry.
\<close>

record Conn =
  LastStreamID :: uint32
  Window :: Window
  Settings :: ref
  PeerSettings :: ref
  Streams :: "(uint32 \<times> Stream option) list"
  WriteChan :: "Frame chan"

section \<open>conn.go\<close>

subsection \<open>NewConn\<close>

text \<open>
  \<open>NewConn\<close> (conn.go, lines 29 to 40). Both settings fields receive the package-level map
  \<open>DefaultSettings\<close> itself. \<open>NewWindowDefault\<close> is not among the sources: the window it
  returns is the parameter \<open>w0\<close>.
\<close>

definition NewConn :: "Window \<Rightarrow> Conn" where
  "NewConn w0 =
     \<lparr>LastStreamID = 0,
      Window = w0,
      Settings = DefaultSettings,
      PeerSettings = DefaultSettings,
      Streams = [],
      WriteChan = make_chan\<rparr>"

text \<open>
  Modelled from the spec: the package-level \<open>NewStream\<close> that \<open>conn.NewStream\<close> (lines 42 to
  53) calls is not among the sources. The new stream is idle, keeps the two settings maps it is
  handed (by reference), has a window of its own (\<open>w0\<close>, a fresh default window) and an empty
  inbound queue.
\<close>

definition NewStream :: "Window \<Rightarrow> uint32 \<Rightarrow> ref \<Rightarrow> ref \<Rightarrow> Stream" where
  "NewStream w0 streamid settings peersettings =
     \<lparr>ID = streamid,
      State = IDLE,
      Window = w0,
      Settings = settings,
      PeerSettings = peersettings,
      ReadChan = make_chan\<rparr>"

definition Conn_NewStream :: "Window \<Rightarrow> Conn \<Rightarrow> uint32 \<Rightarrow> Stream" where
  "Conn_NewStream w0 conn streamid =
     NewStream w0 streamid (Conn.Settings conn) (Conn.PeerSettings conn)"

subsection \<open>HandleSettings\<close>

text \<open>
  Lines 81 to 83, and again lines 88 to 90 with \<open>stream.Window\<close> for \<open>conn.Window\<close>:
  \<open>PeerCurrentSize -= InitialSize; PeerCurrentSize += initialWindowSize;
  InitialSize = initialWindowSize\<close>.
\<close>

definition rebase :: "Window \<Rightarrow> int32 \<Rightarrow> Window" where
  "rebase w initialWindowSize =
     w\<lparr>PeerCurrentSize := PeerCurrentSize w - InitialSize w + initialWindowSize,
       InitialSize := initialWindowSize\<rparr>"

text \<open>
  The loop of lines 86 to 92 over \<open>conn.Streams\<close>. The body reads \<open>stream.Window\<close> at once, so
  an entry whose value is nil panics. Go visits the entries in no fixed order; the updates of
  different entries do not depend on one another, and a nil entry panics in every order.
\<close>

fun apply_settings ::
  "int32 \<Rightarrow> (uint32 \<times> Stream option) list \<Rightarrow> store \<Rightarrow> panic + ((uint32 \<times> Stream option) list \<times> store)"
where
  "apply_settings n [] h = Inr ([], h)"
| "apply_settings n ((i, None) # ss) h = Inl NilPointerDereference"
| "apply_settings n ((i, Some stream) # ss) h =
     (case apply_settings n ss
             (map_assign h (Stream.PeerSettings stream) SETTINGS_INITIAL_WINDOW_SIZE n) of
        Inl e \<Rightarrow> Inl e
      | Inr (ss', h') \<Rightarrow>
          Inr ((i, Some (stream\<lparr>Stream.Window := rebase (Stream.Window stream) n\<rparr>)) # ss', h'))"

text \<open>What \<open>HandleSettings\<close> logs through \<open>Error\<close>, if anything.\<close>

datatype report = NoError | UnknownFlag uint8 | FLOW_CONTROL_ERROR

text \<open>Lines 95 to 97: the acknowledgment is built on the shared map \<open>NilSettings\<close> and sent.\<close>

definition send_ack :: "Conn \<Rightarrow> store \<Rightarrow> panic + (report \<times> Conn \<times> store)" where
  "send_ack conn h =
     (case send (WriteChan conn) (NewSettingsFrame ACK 0 NilSettings) of
        Inl e \<Rightarrow> Inl e
      | Inr ch \<Rightarrow> Inr (NoError, conn\<lparr>WriteChan := ch\<rparr>, h))"

text \<open>
  \<open>HandleSettings\<close> (lines 55 to 98). The argument is a \<open>*SettingsFrame\<close>: its header \<open>fh\<close> and
  the reference \<open>settings\<close> of its map. The comparison \<open>initialWindowSize > 65535\<close> is on \<open>int32\<close>.
\<close>

definition HandleSettings ::
  "Conn \<Rightarrow> FrameHeader \<Rightarrow> ref \<Rightarrow> store \<Rightarrow> panic + (report \<times> Conn \<times> store)"
where
  "HandleSettings conn fh settings h =
     (if Flags fh = ACK then Inr (NoError, conn, h)
      else if Flags fh \<noteq> UNSET then Inr (UnknownFlag (Flags fh), conn, h)
      else
        let conn1 = conn\<lparr>Conn.Settings := settings\<rparr> in
        (case h settings SETTINGS_INITIAL_WINDOW_SIZE of
           None \<Rightarrow> send_ack conn1 h
         | Some initialWindowSize \<Rightarrow>
             if 65535 < sint initialWindowSize then Inr (FLOW_CONTROL_ERROR, conn1, h)
             else
               let conn2 = conn1\<lparr>Conn.Window := rebase (Conn.Window conn1) initialWindowSize\<rparr>;
                   h1 = map_assign h (Conn.PeerSettings conn2) SETTINGS_INITIAL_WINDOW_SIZE
                          initialWindowSize
               in (case apply_settings initialWindowSize (Streams conn2) h1 of
                     Inl e \<Rightarrow> Inl e
                   | Inr (ss, h2) \<Rightarrow> send_ack (conn2\<lparr>Streams := ss\<rparr>) h2)))"

subsection \<open>WindowUpdate\<close>

text \<open>
  \<open>WindowUpdate\<close> (lines 201 to 212), with \<open>len\<close> for the parameter \<open>length\<close>. All
  arithmetic is \<open>int32\<close>; \<open>uint32(update)\<close> keeps the bits.
\<close>

definition WindowUpdate :: "Conn \<Rightarrow> int32 \<Rightarrow> panic + Conn" where
  "WindowUpdate conn len =
     (let w1 = (Conn.Window conn)\<lparr>CurrentSize := CurrentSize (Conn.Window conn) - len\<rparr> in
      if sint (CurrentSize w1) < sint (Threshold w1) then
        let update = InitialSize w1 - CurrentSize w1 in
        (case send (WriteChan conn) (NewWindowUpdateFrame 0 update) of
           Inl e \<Rightarrow> Inl e
         | Inr ch \<Rightarrow>
             Inr (conn\<lparr>Conn.Window := w1\<lparr>CurrentSize := CurrentSize w1 + update\<rparr>,
                       WriteChan := ch\<rparr>))
      else Inr (conn\<lparr>Conn.Window := w1\<rparr>))"

subsection \<open>Close\<close>

text \<open>
  Modelled from the spec: \<open>stream.Close\<close> is not among the sources. By the spec, closing a
  stream sets it to \<open>CLOSED\<close> and closes its inbound queue, and doing so again changes nothing.
\<close>

definition Stream_Close :: "Stream \<Rightarrow> Stream" where
  "Stream_Close stream =
     stream\<lparr>State := CLOSED, ReadChan := (ReadChan stream)\<lparr>closed := True\<rparr>\<rparr>"

text \<open>
  \<open>Close\<close> (lines 237 to 247): every entry that is not nil is closed, then the outbound
  channel is closed (a panic when it is closed already; the frames still waiting on it are
  lost with their senders).
\<close>

definition close_entry :: "uint32 \<times> Stream option \<Rightarrow> uint32 \<times> Stream option" where
  "close_entry e = (case snd e of None \<Rightarrow> e | Some stream \<Rightarrow> (fst e, Some (Stream_Close stream)))"

definition Close :: "Conn \<Rightarrow> panic + Conn" where
  "Close conn =
     (let conn1 = conn\<lparr>Streams := map close_entry (Streams conn)\<rparr> in
      case close_chan (WriteChan conn1) of
        Inl e \<Rightarrow> Inl e
      | Inr ch \<Rightarrow> Inr (conn1\<lparr>WriteChan := ch\<rparr>))"

subsection \<open>ReadLoop\<close>

text \<open>
  Lines 116 to 124. \<open>None\<close> is the \<open>return\<close> after a failed type assertion. What
  \<open>HandleSettings\<close> logs is not kept.
\<close>

definition on_settings :: "Frame \<Rightarrow> Conn \<Rightarrow> store \<Rightarrow> panic + (Conn \<times> store) option" where
  "on_settings frame conn h =
     (if Type (Header frame) = SettingsFrameType then
        (case frame of
           SettingsFrame fh settings \<Rightarrow>
             (case HandleSettings conn fh settings h of
                Inl e \<Rightarrow> Inl e
              | Inr (r, conn', h') \<Rightarrow> Inr (Some (conn', h')))
         | _ \<Rightarrow> Inr None)
      else Inr (Some (conn, h)))"

text \<open>Lines 126 to 134; \<open>int32(WindowSizeIncrement)\<close> keeps the bits.\<close>

definition on_window_update :: "Frame \<Rightarrow> Conn \<Rightarrow> Conn option" where
  "on_window_update frame conn =
     (if StreamID (Header frame) = 0 \<and> Type (Header frame) = WindowUpdateFrameType then
        (case frame of
           WindowUpdateFrame fh incr \<Rightarrow>
             Some (conn\<lparr>Conn.Window :=
                     (Conn.Window conn)\<lparr>PeerCurrentSize := PeerCurrentSize (Conn.Window conn) + incr\<rparr>\<rparr>)
         | _ \<Rightarrow> None)
      else Some conn)"

text \<open>
  Lines 156 to 182, for a frame whose stream identifier is not 0. \<open>ChangeState\<close> is not among
  the sources: it is the parameter of that name, the stream after \<open>stream.ChangeState(frame,
  RECV)\<close> (the error it returns is only logged). \<open>conn.Streams[streamID]\<close> finds an entry whether
  its value is a stream or nil; on a nil stream \<open>stream.State\<close> (line 176) panics at the latest.
  Line 178 assigns nil to the entry: the key stays in the map. A stream taken out of the table
  lives on only with its consumer, so the frame sent to it at line 182 is not kept here.
\<close>

definition on_stream ::
  "(Stream \<Rightarrow> Frame \<Rightarrow> Stream) \<Rightarrow> Window \<Rightarrow> Frame \<Rightarrow> Conn \<Rightarrow> panic + Conn"
where
  "on_stream ChangeState w0 frame conn =
     (let streamID = StreamID (Header frame);
          found = map_of (Streams conn) streamID;
          entry = (case found of
                     Some e \<Rightarrow> e
                   | None \<Rightarrow> Some (Conn_NewStream w0 conn streamID));
          conn1 = (case found of
                     Some e \<Rightarrow> conn
                   | None \<Rightarrow>
                       conn\<lparr>Streams := AList.update streamID entry (Streams conn),
                            LastStreamID :=
                              (if LastStreamID conn < streamID then streamID
                               else LastStreamID conn)\<rparr>)
      in case entry of
           None \<Rightarrow> Inl NilPointerDereference
         | Some stream \<Rightarrow>
             let stream1 = ChangeState stream frame in
             (case send (ReadChan stream1) frame of
                Inl e \<Rightarrow> Inl e
              | Inr ch \<Rightarrow>
                  Inr (conn1\<lparr>Streams :=
                         AList.update streamID
                           (if State stream1 = CLOSED then None
                            else Some (stream1\<lparr>ReadChan := ch\<rparr>))
                           (Streams conn1)\<rparr>)))"

text \<open>
  One pass of the loop body (lines 112 to 182) for a frame that was read. \<open>int32(Length)\<close> of
  the unsigned \<open>Length\<close> is its value modulo \<open>2 ^ 32\<close>.
\<close>

datatype ctl = Continue | Break | Return

definition ReadLoop_step ::
  "(Stream \<Rightarrow> Frame \<Rightarrow> Stream) \<Rightarrow> Window \<Rightarrow> Frame \<Rightarrow> Conn \<Rightarrow> store \<Rightarrow> panic + (ctl \<times> Conn \<times> store)"
where
  "ReadLoop_step ChangeState w0 frame conn h =
     (case on_settings frame conn h of
        Inl e \<Rightarrow> Inl e
      | Inr None \<Rightarrow> Inr (Return, conn, h)
      | Inr (Some (conn1, h1)) \<Rightarrow>
          (case on_window_update frame conn1 of
             None \<Rightarrow> Inr (Return, conn1, h1)
           | Some conn2 \<Rightarrow>
               if Type (Header frame) = GoAwayFrameType then
                 (case Close conn2 of
                    Inl e \<Rightarrow> Inl e
                  | Inr conn3 \<Rightarrow> Inr (Break, conn3, h1))
               else
                 (case (if Type (Header frame) = DataFrameType
                        then WindowUpdate conn2 (of_nat (Length (Header frame)))
                        else Inr conn2) of
                    Inl e \<Rightarrow> Inl e
                  | Inr conn3 \<Rightarrow>
                      if StreamID (Header frame) = 0 then Inr (Continue, conn3, h1)
                      else
                        (case on_stream ChangeState w0 frame conn3 of
                           Inl e \<Rightarrow> Inl e
                         | Inr conn4 \<Rightarrow> Inr (Continue, conn4, h1)))))"

text \<open>
  \<open>ReadLoop\<close> (lines 100 to 184) over what \<open>ReadFrame\<close> yields, in order: a frame, or an error
  other than end of input (\<open>Fatal\<close>); the end of the list is \<open>io.EOF\<close>, which ends the loop.
\<close>

datatype ReadResult = ReadFrame Frame | ReadError

fun ReadLoop ::
  "(Stream \<Rightarrow> Frame \<Rightarrow> Stream) \<Rightarrow> Window \<Rightarrow> ReadResult list \<Rightarrow> Conn \<Rightarrow> store \<Rightarrow> panic + (Conn \<times> store)"
where
  "ReadLoop ChangeState w0 [] conn h = Inr (conn, h)"
| "ReadLoop ChangeState w0 (ReadError # rs) conn h = Inl FatalError"
| "ReadLoop ChangeState w0 (ReadFrame frame # rs) conn h =
     (case ReadLoop_step ChangeState w0 frame conn h of
        Inl e \<Rightarrow> Inl e
      | Inr (c, conn', h') \<Rightarrow>
          (case c of
             Continue \<Rightarrow> ReadLoop ChangeState w0 rs conn' h'
           | Break \<Rightarrow> Inr (conn', h')
           | Return \<Rightarrow> Inr (conn', h')))"

subsection \<open>WriteLoop\<close>



subsection \<open>The state table of the spec\<close>

text \<open>
  Modelled from the spec: \<open>stream.ChangeState\<close> is not among the sources. This is the state
  table of the spec for a received frame: a stream reset closes the stream from every state;
  a HEADERS frame opens an idle stream (half-closed by the peer when it carries end-of-stream);
  end-of-stream from the peer half-closes an open stream and closes one that is half-closed
  locally. It is used to evaluate \<open>ReadLoop\<close> on concrete input only.
\<close>

definition ChangeState_RECV :: "Stream \<Rightarrow> Frame \<Rightarrow> Stream" where
  "ChangeState_RECV stream frame =
     (let es = (and (Flags (Header frame)) END_STREAM = END_STREAM) in
      if Type (Header frame) = RstStreamFrameType then stream\<lparr>State := CLOSED\<rparr>
      else case State stream of
        IDLE \<Rightarrow>
          if Type (Header frame) = HeadersFrameType
          then stream\<lparr>State := (if es then HALF_CLOSED_REMOTE else OPEN)\<rparr>
          else stream
      | OPEN \<Rightarrow> if es then stream\<lparr>State := HALF_CLOSED_REMOTE\<rparr> else stream
      | HALF_CLOSED_LOCAL \<Rightarrow> if es then stream\<lparr>State := CLOSED\<rparr> else stream
      | HALF_CLOSED_REMOTE \<Rightarrow> stream
      | CLOSED \<Rightarrow> stream)"

section \<open>stream.go\<close>

text \<open>
  stream.go holds the request and response adapter, written against an earlier \<open>Conn\<close> whose
  \<open>WriteFrame\<close>, \<open>ReadFrame\<close> and \<open>EncodeHeader\<close> are not among the sources. Its \<open>Stream\<close> type
  (fields \<open>Id\<close>, \<open>Conn\<close>, \<open>req\<close>) is \<open>AdapterStream\<close> here, since conn.go's \<open>Stream\<close> has the
  name. \<open>stream.Send\<close> appends to the frames written to the connection; \<open>stream.Recv\<close> takes the
  next frame the connection delivers.
\<close>

record AdapterStream =
  Id :: uint32
  req :: "Request option"

text \<open>
  \<open>SendRequest\<close> (lines 30 to 53). \<open>EncodeHeader\<close> is the header-compression collaborator, a
  parameter. The result is the stream, the frames sent in order, and the panic that ended the
  call if one did: \<open>ioutil.ReadAll\<close> on a nil \<open>Body\<close> dereferences it. \<open>uint16(len(...))\<close> is the
  length modulo \<open>2 ^ 16\<close>.
\<close>

definition SendRequest ::
  "(http_Header \<Rightarrow> bytes) \<Rightarrow> AdapterStream \<Rightarrow> Request \<Rightarrow> AdapterStream \<times> Frame list \<times> panic option"
where
  "SendRequest EncodeHeader stream r =
     (let stream1 = stream\<lparr>req := Some r\<rparr> in
      if Method r = ''GET'' then
        let frame = NewHeadersFrame (END_STREAM + END_HEADERS) (Id stream1);
            HeaderBlock = EncodeHeader (Request.Header r)
        in (stream1,
            [HeadersFrame (frame\<lparr>Length := length HeaderBlock mod 2 ^ 16\<rparr>)
               (Request.Header r) HeaderBlock],
            None)
      else if Method r = ''POST'' then
        let frame = NewHeadersFrame END_HEADERS (Id stream1);
            HeaderBlock = EncodeHeader (Request.Header r);
            headers = HeadersFrame (frame\<lparr>Length := length HeaderBlock mod 2 ^ 16\<rparr>)
                        (Request.Header r) HeaderBlock
        in (case Request.Body r of
              None \<Rightarrow> (stream1, [headers], Some NilPointerDereference)
            | Some Data \<Rightarrow>
                (stream1,
                 [headers,
                  DataFrame ((NewDataFrame 0 (Id stream1))\<lparr>Length := length Data mod 2 ^ 16\<rparr>) Data,
                  DataFrame (NewDataFrame END_STREAM (Id stream1)) []],
                 None))
      else (stream1, [], None))"

text \<open>
  The loop of \<open>RecvResponse\<close> (lines 60 to 82): \<open>c\<close>, \<open>header\<close> and \<open>resBody\<close> are its variables,
  the list is what \<open>stream.Recv\<close> will return, frame by frame. The result is \<open>header\<close>,
  \<open>resBody\<close> and the frames left unread. The type assertions have one result, so they panic on
  a frame of another type. When no frame is left the loop has not ended: \<open>None\<close>.
\<close>

fun RecvResponse_loop ::
  "int \<Rightarrow> http_Header \<Rightarrow> bytes \<Rightarrow> Frame list \<Rightarrow> (panic + (http_Header \<times> bytes \<times> Frame list)) option"
where
  "RecvResponse_loop c header resBody [] = None"
| "RecvResponse_loop c header resBody (frame # fs) =
     (case (if Type (Header frame) = HeadersFrameType
            then (case frame of HeadersFrame fh Headers hb \<Rightarrow> Inr Headers
                  | _ \<Rightarrow> Inl TypeAssertionFailed)
            else Inr header) of
        Inl e \<Rightarrow> Some (Inl e)
      | Inr header1 \<Rightarrow>
          (case (if Type (Header frame) = DataFrameType
                 then (case frame of DataFrame fh Data \<Rightarrow> Inr (resBody @ Data)
                       | _ \<Rightarrow> Inl TypeAssertionFailed)
                 else Inr resBody) of
             Inl e \<Rightarrow> Some (Inl e)
           | Inr resBody1 \<Rightarrow>
               if Flags (Header frame) = 1 then Some (Inr (header1, resBody1, fs))
               else if 50 < c then Some (Inr (header1, resBody1, fs))
               else RecvResponse_loop (c + 1) header1 resBody1 fs))"

text \<open>\<open>header.Get\<close>: the first value stored under the key, or the empty string.\<close>

definition Header_Get :: "http_Header \<Rightarrow> string \<Rightarrow> string" where
  "Header_Get header key =
     (case header key of None \<Rightarrow> [] | Some vs \<Rightarrow> (case vs of [] \<Rightarrow> [] | v # rest \<Rightarrow> v))"

text \<open>
  \<open>RecvResponse\<close> (lines 55 to 101). \<open>strconv.Atoi\<close> (its error dropped) and \<open>http.StatusText\<close>
  are library functions, parameters here. \<open>http.Header{}\<close> is the empty map.
\<close>

definition RecvResponse ::
  "(string \<Rightarrow> int) \<Rightarrow> (int \<Rightarrow> string) \<Rightarrow> AdapterStream \<Rightarrow> Frame list \<Rightarrow> (panic + (Response \<times> Frame list)) option"
where
  "RecvResponse Atoi StatusText stream frames =
     (case RecvResponse_loop 0 Map.empty [] frames of
        None \<Rightarrow> None
      | Some (Inl e) \<Rightarrow> Some (Inl e)
      | Some (Inr (header, resBody, rest)) \<Rightarrow>
          let status = Header_Get header ''Status'';
              statuscode = Atoi status
          in Some (Inr (\<lparr>Status = status @ StatusText statuscode,
                          StatusCode = statuscode,
                          Header = header,
                          Body = resBody,
                          ContentLength = int (length resBody),
                          Request = req stream\<rparr>,
                        rest)))"

section \<open>Vocabulary of the statements\<close>

text \<open>
  These definitions are not part of the program: they name what the theorems say about it.
\<close>

text \<open>An entry of the stream table holds a stream (its value is not nil).\<close>

definition live_entry :: "uint32 \<times> Stream option \<Rightarrow> bool" where
  "live_entry e = (snd e \<noteq> None)"

text \<open>The entry with its stream's window rebased to the initial size \<open>n\<close>.\<close>

definition rebase_entry :: "int32 \<Rightarrow> uint32 \<times> Stream option \<Rightarrow> uint32 \<times> Stream option" where
  "rebase_entry n e =
     (fst e,
      map_option (\<lambda>stream. stream\<lparr>Stream.Window := rebase (Stream.Window stream) n\<rparr>) (snd e))"


text \<open>
  A frame as the decoder returns it: its concrete type is the one its header names.
\<close>

fun decoded :: "Frame \<Rightarrow> bool" where
  "decoded (DataFrame fh d) = (Type fh = DataFrameType)"
| "decoded (HeadersFrame fh hs hb) = (Type fh = HeadersFrameType)"
| "decoded (RstStreamFrame fh) = (Type fh = RstStreamFrameType)"
| "decoded (SettingsFrame fh st) = (Type fh = SettingsFrameType)"
| "decoded (GoAwayFrame fh) = (Type fh = GoAwayFrameType)"
| "decoded (WindowUpdateFrame fh inc) = (Type fh = WindowUpdateFrameType)"
| "decoded (OtherFrame fh) = (case Type fh of OtherFrameType n \<Rightarrow> True | _ \<Rightarrow> False)"

text \<open>
  The frame has the end-of-stream bit set; and: if it has, then no other flag is set with it.
\<close>

definition carries_END_STREAM :: "Frame \<Rightarrow> bool" where
  "carries_END_STREAM frame = (and (Flags (Header frame)) END_STREAM \<noteq> 0)"

definition END_STREAM_alone :: "Frame \<Rightarrow> bool" where
  "END_STREAM_alone frame = (carries_END_STREAM frame \<longrightarrow> Flags (Header frame) = END_STREAM)"

text \<open>
  The header fields of the last HEADERS frame of a list (\<open>header\<close> when it has none), and the
  payloads of its DATA frames, concatenated in order.
\<close>

fun last_headers :: "http_Header \<Rightarrow> Frame list \<Rightarrow> http_Header" where
  "last_headers header [] = header"
| "last_headers header (HeadersFrame fh hs hb # fs) = last_headers hs fs"
| "last_headers header (frame # fs) = last_headers header fs"

fun payloads :: "Frame list \<Rightarrow> bytes" where
  "payloads [] = []"
| "payloads (DataFrame fh d # fs) = d @ payloads fs"
| "payloads (frame # fs) = payloads fs"

text \<open>
  The number of frames up to and including the first that carries end-of-stream, and at most
  52.
\<close>

definition drained :: "Frame list \<Rightarrow> nat" where
  "drained frames =
     min 52 (Suc (length (takeWhile (\<lambda>frame. \<not> carries_END_STREAM frame) frames)))"

section \<open>Example values\<close>

text \<open>Concrete inputs on which the theorems below are evaluated.\<close>

definition example_window :: Window where
  "example_window =
     \<lparr>InitialSize = 65535, CurrentSize = 65535, PeerCurrentSize = 65535, Threshold = 16384\<rparr>"

definition settings_header :: "uint8 \<Rightarrow> FrameHeader" where
  "settings_header flags = \<lparr>Length = 5, Type = SettingsFrameType, Flags = flags, StreamID = 0\<rparr>"

text \<open>The store after a settings frame was decoded: its map, at reference 2, holds one entry.\<close>

definition store_with :: "SettingsID \<Rightarrow> int32 \<Rightarrow> store" where
  "store_with k n = init_store(2 := [k \<mapsto> n])"

definition settings_frame :: Frame where
  "settings_frame = SettingsFrame (settings_header UNSET) 2"

definition frame_header :: "FrameType \<Rightarrow> uint8 \<Rightarrow> nat \<Rightarrow> uint32 \<Rightarrow> FrameHeader" where
  "frame_header t flags n streamid = \<lparr>Length = n, Type = t, Flags = flags, StreamID = streamid\<rparr>"

definition data_60000 :: Frame where
  "data_60000 = DataFrame (frame_header DataFrameType UNSET 60000 5) []"

definition rst_1 :: Frame where
  "rst_1 = RstStreamFrame (frame_header RstStreamFrameType UNSET 4 1)"

definition headers_1 :: Frame where
  "headers_1 = HeadersFrame (frame_header HeadersFrameType END_HEADERS 0 1) Map.empty []"


definition conn_after_update :: Conn where
  "conn_after_update =
     (NewConn example_window)
       \<lparr>WriteChan := \<lparr>buf = [NewWindowUpdateFrame 0 60000], closed = False\<rparr>\<rparr>"

definition conn_after_rst :: Conn where
  "conn_after_rst = (NewConn example_window)\<lparr>LastStreamID := 1, Streams := [(1, None)]\<rparr>"

definition open_stream :: "uint32 \<Rightarrow> Stream" where
  "open_stream streamid =
     (NewStream example_window streamid DefaultSettings DefaultSettings)\<lparr>State := OPEN\<rparr>"


definition conn_three_streams :: Conn where
  "conn_three_streams =
     (NewConn example_window)
       \<lparr>LastStreamID := 5,
        Streams := [(1, Some (open_stream 1)), (3, Some (open_stream 3)), (5, Some (open_stream 5))]\<rparr>"

text \<open>Stand-ins for the library functions and the header encoder, and an adapter stream.\<close>

definition example_Atoi :: "string \<Rightarrow> int" where
  "example_Atoi s = (if s = ''200'' then 200 else 0)"

definition example_StatusText :: "int \<Rightarrow> string" where
  "example_StatusText n = (if n = 200 then ''OK'' else [])"

definition example_EncodeHeader :: "http_Header \<Rightarrow> bytes" where
  "example_EncodeHeader header = [130, 134]"

definition example_stream :: AdapterStream where
  "example_stream = \<lparr>Id = 1, req = None\<rparr>"

definition status_200 :: http_Header where
  "status_200 = [''Status'' \<mapsto> [''200'']]"

definition trailer :: http_Header where
  "trailer = [''X-Trailer'' \<mapsto> [''1'']]"

definition response_frames :: "Frame list" where
  "response_frames =
     [HeadersFrame (frame_header HeadersFrameType END_HEADERS 2 1) status_200 [136, 0],
      DataFrame (frame_header DataFrameType UNSET 2 1) [97, 98],
      DataFrame (frame_header DataFrameType END_STREAM 1 1) [99],
      DataFrame (frame_header DataFrameType UNSET 2 1) [122, 122]]"

definition two_headers_frames :: "Frame list" where
  "two_headers_frames =
     [HeadersFrame (frame_header HeadersFrameType END_HEADERS 2 1) status_200 [136, 0],
      HeadersFrame (frame_header HeadersFrameType END_STREAM 2 1) trailer [64, 0]]"

definition request_header :: http_Header where
  "request_header = [''Accept'' \<mapsto> [''text/html'']]"

definition get_request :: Request where
  "get_request = \<lparr>Method = ''GET'', Header = request_header, Body = None\<rparr>"

definition post_request :: Request where
  "post_request = \<lparr>Method = ''POST'', Header = request_header, Body = Some [97, 98]\<rparr>"

definition head_request :: Request where
  "head_request = \<lparr>Method = ''HEAD'', Header = request_header, Body = None\<rparr>"

section \<open>Properties\<close>

subsection \<open>Auxiliary facts\<close>

lemma flags_distinct: "UNSET \<noteq> ACK" "ACK \<noteq> UNSET"
  by (simp_all add: UNSET_def ACK_def)

lemma WindowUpdate_open:
  assumes "\<not> closed (WriteChan conn)"
  shows "WindowUpdate conn len =
    Inr (conn\<lparr>Conn.Window := (Conn.Window conn)\<lparr>CurrentSize :=
             (if sint (CurrentSize (Conn.Window conn) - len) < sint (Threshold (Conn.Window conn))
              then InitialSize (Conn.Window conn) else CurrentSize (Conn.Window conn) - len)\<rparr>,
         WriteChan := (WriteChan conn)\<lparr>buf := buf (WriteChan conn) @
             (if sint (CurrentSize (Conn.Window conn) - len) < sint (Threshold (Conn.Window conn))
              then [NewWindowUpdateFrame 0
                      (InitialSize (Conn.Window conn) - (CurrentSize (Conn.Window conn) - len))]
              else [])\<rparr>\<rparr>)"
  using assms by (simp add: WindowUpdate_def Let_def send_def)

lemma on_stream_frame:
  "on_stream cs w0 frame conn = Inr conn' \<Longrightarrow>
     Conn.Window conn' = Conn.Window conn \<and> WriteChan conn' = WriteChan conn"
  by (auto simp: on_stream_def Let_def split: option.splits sum.splits)

lemma ReadLoop_step_data:
  assumes "Type (Header frame) = DataFrameType"
  shows "ReadLoop_step cs w0 frame conn h =
     (case WindowUpdate conn (of_nat (Length (Header frame))) of
        Inl e \<Rightarrow> Inl e
      | Inr conn1 \<Rightarrow>
          if StreamID (Header frame) = 0 then Inr (Continue, conn1, h)
          else (case on_stream cs w0 frame conn1 of
                  Inl e \<Rightarrow> Inl e
                | Inr conn2 \<Rightarrow> Inr (Continue, conn2, h)))"
  using assms by (simp add: ReadLoop_step_def on_settings_def on_window_update_def)

subsection \<open>Rebasing a window\<close>

text \<open>
  C9. Rebasing a window to a new initial size and then back to the initial size it had leaves
  \<open>PeerCurrentSize\<close> (and the whole window) as it was, for every window and every pair of
  sizes, wrap-around included. \<open>rebase\<close> is the one computation \<open>HandleSettings\<close> applies to
  the connection window and to each stream's window alike (lines 81 to 83 and 88 to 90; see
  also \<open>HandleSettings_live_streams\<close> below). The old size of the spec's
  \<open>Rebase(old, new)\<close> is the window's own \<open>InitialSize\<close>: the first two statements take it
  from the window, the third is about any window whose initial size is \<open>old\<close>.
\<close>

theorem rebase_inverse:
  "PeerCurrentSize (rebase (rebase w new) (InitialSize w)) = PeerCurrentSize w
   \<and> rebase (rebase w new) (InitialSize w) = w
   \<and> PeerCurrentSize (rebase (rebase (w\<lparr>InitialSize := old\<rparr>) new) old) = PeerCurrentSize w"
  by (simp add: rebase_def)

subsection \<open>Data frames and the connection window\<close>

text \<open>
  C3. For a received DATA frame, whatever its stream identifier, on a connection whose
  outbound queue is open: the connection window's \<open>CurrentSize\<close> is decremented by the payload
  length; when the result is below \<open>Threshold\<close>, a WINDOW_UPDATE frame for stream 0 with
  increment \<open>InitialSize - CurrentSize\<close> is appended to the outbound queue and \<open>CurrentSize\<close>
  becomes \<open>InitialSize\<close>; otherwise nothing is sent. This is the first effect of the loop body
  on such a frame, and the stream-level part that follows changes neither the connection
  window nor the outbound queue.
\<close>

theorem data_frame_consumes_connection_window:
  assumes "Type (Header frame) = DataFrameType"
      and "\<not> closed (WriteChan conn)"
  shows "let w = Conn.Window conn;
             cur = CurrentSize w - of_nat (Length (Header frame));
             low = (sint cur < sint (Threshold w))
         in \<exists>conn1.
              WindowUpdate conn (of_nat (Length (Header frame))) = Inr conn1
            \<and> Conn.Window conn1 = w\<lparr>CurrentSize := (if low then InitialSize w else cur)\<rparr>
            \<and> buf (WriteChan conn1) =
                buf (WriteChan conn) @
                  (if low then [NewWindowUpdateFrame 0 (InitialSize w - cur)] else [])
            \<and> ReadLoop_step cs w0 frame conn h =
                (if StreamID (Header frame) = 0 then Inr (Continue, conn1, h)
                 else case on_stream cs w0 frame conn1 of
                        Inl e \<Rightarrow> Inl e
                      | Inr conn2 \<Rightarrow> Inr (Continue, conn2, h))
            \<and> (\<forall>conn2. on_stream cs w0 frame conn1 = Inr conn2 \<longrightarrow>
                  Conn.Window conn2 = Conn.Window conn1 \<and> WriteChan conn2 = WriteChan conn1)"
  unfolding Let_def
  using WindowUpdate_open [OF assms(2)] ReadLoop_step_data [OF assms(1)] on_stream_frame
  by (auto simp: Let_def)

text \<open>
  A fresh connection receives a DATA frame of 60000 bytes for stream 5: 5535 is below the
  threshold, so an update of 60000 is queued and \<open>CurrentSize\<close> is 65535 again.
\<close>

theorem data_frame_consumes_connection_window_witness:
  "Type (Header data_60000) = DataFrameType
   \<and> \<not> closed (WriteChan (NewConn example_window))
   \<and> (\<exists>conn2. ReadLoop_step ChangeState_RECV example_window data_60000
                  (NewConn example_window) init_store
                  = Inr (Continue, conn2, init_store)
          \<and> CurrentSize (Conn.Window conn2) = 65535
          \<and> buf (WriteChan conn2) = [NewWindowUpdateFrame 0 60000])"
proof -
  have a: "Type (Header data_60000) = DataFrameType"
    by (simp add: data_60000_def frame_header_def UNSET_def)
  have b: "\<not> closed (WriteChan (NewConn example_window))"
    by (simp add: NewConn_def make_chan_def)
  obtain conn1 where
        wu: "WindowUpdate (NewConn example_window) (of_nat (Length (Header data_60000))) = Inr conn1"
    and st: "ReadLoop_step ChangeState_RECV example_window data_60000 (NewConn example_window)
               init_store =
               (if StreamID (Header data_60000) = 0 then Inr (Continue, conn1, init_store)
                 else case on_stream ChangeState_RECV example_window data_60000 conn1 of
                        Inl e \<Rightarrow> Inl e
                      | Inr conn2 \<Rightarrow> Inr (Continue, conn2, init_store))"
    using data_frame_consumes_connection_window
            [OF a b, of ChangeState_RECV example_window init_store]
    unfolding Let_def by blast
  have "WindowUpdate (NewConn example_window) (of_nat (Length (Header data_60000)))
          = Inr conn_after_update"
    by (simp add: WindowUpdate_def Let_def send_def NewConn_def make_chan_def example_window_def
        data_60000_def frame_header_def UNSET_def conn_after_update_def)
  with wu have c1: "conn1 = conn_after_update"
    by simp
  have os: "on_stream ChangeState_RECV example_window data_60000 conn_after_update
           = Inr (conn_after_update
                   \<lparr>Streams := [(5, Some ((NewStream example_window 5 DefaultSettings DefaultSettings)
                                   \<lparr>ReadChan := \<lparr>buf = [data_60000], closed = False\<rparr>\<rparr>))],
                    LastStreamID := 5\<rparr>)"
    by (simp add: on_stream_def Let_def send_def Conn_NewStream_def NewStream_def NewConn_def
        make_chan_def ChangeState_RECV_def data_60000_def frame_header_def UNSET_def conn_after_update_def)
  show ?thesis
    using a b st
    by (simp add: c1 os) (simp add: conn_after_update_def NewConn_def example_window_def
        data_60000_def frame_header_def UNSET_def)
qed

subsection \<open>Settings frames\<close>

lemma apply_settings_live:
  "list_all live_entry ss \<Longrightarrow> \<exists>h'. apply_settings n ss h = Inr (map (rebase_entry n) ss, h')"
proof (induction ss arbitrary: h)
  case Nil
  then show ?case by simp
next
  case (Cons e ss)
  obtain i stream where e: "e = (i, Some stream)"
    using Cons.prems by (cases e) (auto simp: live_entry_def)
  obtain h' where "apply_settings n ss
      (map_assign h (Stream.PeerSettings stream) SETTINGS_INITIAL_WINDOW_SIZE n)
      = Inr (map (rebase_entry n) ss, h')"
    using Cons.IH Cons.prems by auto
  then show ?case
    by (simp add: e rebase_entry_def)
qed

text \<open>
  On a stream table without nil entries and an open outbound queue, a settings frame with no
  flags and an initial window size \<open>n\<close> of at most 65535 rebases the connection window and
  every stream's window to \<open>n\<close> and queues the acknowledgment.
\<close>

lemma HandleSettings_live_streams:
  assumes "Flags fh = UNSET"
      and "h settings SETTINGS_INITIAL_WINDOW_SIZE = Some n"
      and "sint n \<le> 65535"
      and "list_all live_entry (Streams conn)"
      and "\<not> closed (WriteChan conn)"
  shows "\<exists>h'. HandleSettings conn fh settings h =
           Inr (NoError,
                conn\<lparr>Conn.Settings := settings,
                     Conn.Window := rebase (Conn.Window conn) n,
                     Streams := map (rebase_entry n) (Streams conn),
                     WriteChan := (WriteChan conn)
                       \<lparr>buf := buf (WriteChan conn) @ [NewSettingsFrame ACK 0 NilSettings]\<rparr>\<rparr>,
                h')"
proof -
  obtain h' where a: "apply_settings n (Streams conn)
       (map_assign h (Conn.PeerSettings conn) SETTINGS_INITIAL_WINDOW_SIZE n)
       = Inr (map (rebase_entry n) (Streams conn), h')"
    using apply_settings_live [OF assms(4)] by blast
  show ?thesis
    using assms(1,2,3,5) a
    by (simp add: HandleSettings_def Let_def flags_distinct send_ack_def send_def)
qed

text \<open>
  The scenario of the spec: three open streams at the default 65535, a settings frame with
  initial window size 20000. Every stream's \<open>PeerCurrentSize\<close> becomes 20000, which is 45535
  less, and the acknowledgment is queued; the map \<open>NilSettings\<close> it carries is empty.
\<close>

lemma HandleSettings_three_streams:
  "HandleSettings conn_three_streams (settings_header UNSET) 2
           (store_with SETTINGS_INITIAL_WINDOW_SIZE 20000) =
     Inr (NoError,
          conn_three_streams
            \<lparr>Conn.Settings := 2,
             Conn.Window := example_window\<lparr>PeerCurrentSize := 20000, InitialSize := 20000\<rparr>,
             Streams :=
               [(1, Some ((open_stream 1)\<lparr>Stream.Window :=
                              example_window\<lparr>PeerCurrentSize := 20000, InitialSize := 20000\<rparr>\<rparr>)),
                (3, Some ((open_stream 3)\<lparr>Stream.Window :=
                              example_window\<lparr>PeerCurrentSize := 20000, InitialSize := 20000\<rparr>\<rparr>)),
                (5, Some ((open_stream 5)\<lparr>Stream.Window :=
                              example_window\<lparr>PeerCurrentSize := 20000, InitialSize := 20000\<rparr>\<rparr>))],
             WriteChan := \<lparr>buf = [NewSettingsFrame ACK 0 NilSettings], closed = False\<rparr>\<rparr>,
          map_assign (store_with SETTINGS_INITIAL_WINDOW_SIZE 20000) DefaultSettings
            SETTINGS_INITIAL_WINDOW_SIZE 20000)
   \<and> PeerCurrentSize example_window - 45535 = 20000
   \<and> map_assign (store_with SETTINGS_INITIAL_WINDOW_SIZE 20000) DefaultSettings
        SETTINGS_INITIAL_WINDOW_SIZE 20000 NilSettings = Map.empty"
  by (simp add: HandleSettings_def Let_def flags_distinct settings_header_def store_with_def
      conn_three_streams_def NewConn_def open_stream_def NewStream_def rebase_def
      example_window_def send_ack_def send_def make_chan_def map_assign_def init_store_def
      DefaultSettings_def NilSettings_def UNSET_def ACK_def)

text \<open>
  C2. On a stream table with a nil entry, a settings frame with no flags and an initial
  window size of 20000 is neither applied to the streams nor acknowledged: \<open>HandleSettings\<close>
  panics on the nil pointer. Line 178 of \<open>ReadLoop\<close> leaves such an entry behind for each
  stream that has closed, and the loop of lines 86 to 92 dereferences every entry. The second
  statement reaches that table from a fresh connection: the peer resets stream 1 and then sends
  the settings frame. (Without nil entries the frame is applied and acknowledged, as
  \<open>HandleSettings_live_streams\<close> and \<open>HandleSettings_three_streams\<close> show.)
\<close>

theorem HandleSettings_nil_entry_panics:
  "HandleSettings conn_after_rst (settings_header UNSET) 2
     (store_with SETTINGS_INITIAL_WINDOW_SIZE 20000) = Inl NilPointerDereference
   \<and> ReadLoop ChangeState_RECV example_window [ReadFrame rst_1, ReadFrame settings_frame]
       (NewConn example_window) (store_with SETTINGS_INITIAL_WINDOW_SIZE 20000)
     = Inl NilPointerDereference"
  by (simp add: HandleSettings_def Let_def flags_distinct settings_header_def store_with_def
      conn_after_rst_def NewConn_def rst_1_def settings_frame_def frame_header_def
      ReadLoop_step_def on_settings_def on_window_update_def on_stream_def Conn_NewStream_def
      NewStream_def ChangeState_RECV_def send_def make_chan_def UNSET_def ACK_def
      map_assign_def init_store_def DefaultSettings_def NilSettings_def DEFAULT_WINDOW_SIZE_def)

text \<open>
  C1. A settings frame whose initial window size is above 65535 changes no window, queues no
  acknowledgment, leaves the stream table, the highest stream identifier and the contents of
  every settings map as they were, and returns without panic. When the frame has no flags,
  the flow-control error is what is reported, and the frame's map, saved before the check, is
  afterwards one of the two settings tables of the connection.
\<close>

theorem HandleSettings_too_large:
  assumes "h settings SETTINGS_INITIAL_WINDOW_SIZE = Some n"
      and "65535 < sint n"
  shows "\<exists>r conn'. HandleSettings conn fh settings h = Inr (r, conn', h)
           \<and> Conn.Window conn' = Conn.Window conn
           \<and> Streams conn' = Streams conn
           \<and> WriteChan conn' = WriteChan conn
           \<and> LastStreamID conn' = LastStreamID conn
           \<and> (Flags fh = UNSET \<longrightarrow>
                r = FLOW_CONTROL_ERROR
                \<and> (Conn.Settings conn' = settings \<or> Conn.PeerSettings conn' = settings))"
  using assms by (simp add: HandleSettings_def Let_def flags_distinct)

text \<open>The scenario of the spec: 70000 arrives on a connection with three open streams.\<close>

theorem HandleSettings_too_large_witness:
  "store_with SETTINGS_INITIAL_WINDOW_SIZE 70000 2 SETTINGS_INITIAL_WINDOW_SIZE = Some 70000
   \<and> 65535 < sint (70000 :: int32)
   \<and> (\<exists>r conn'. HandleSettings conn_three_streams (settings_header UNSET) 2
                     (store_with SETTINGS_INITIAL_WINDOW_SIZE 70000)
                    = Inr (r, conn', store_with SETTINGS_INITIAL_WINDOW_SIZE 70000)
           \<and> Conn.Window conn' = example_window
           \<and> Streams conn' = Streams conn_three_streams
           \<and> WriteChan conn' = make_chan
           \<and> r = FLOW_CONTROL_ERROR)"
proof -
  have a: "store_with SETTINGS_INITIAL_WINDOW_SIZE 70000 2 SETTINGS_INITIAL_WINDOW_SIZE = Some 70000"
    by (simp add: store_with_def)
  have b: "65535 < sint (70000 :: int32)"
    by simp
  show ?thesis
    using a b HandleSettings_too_large
        [where h = "store_with SETTINGS_INITIAL_WINDOW_SIZE 70000" and settings = 2
           and n = 70000 and conn = conn_three_streams and fh = "settings_header UNSET"]
    by (auto simp: conn_three_streams_def NewConn_def settings_header_def)
qed

text \<open>
  Against C1 as stated: on a fresh connection the same frame does leave state behind. The
  connection that is returned differs from the one that came in: its \<open>Settings\<close> field now
  refers to the frame's map, in which the rejected value 70000 stands.
\<close>

theorem HandleSettings_too_large_counterexample:
  "HandleSettings (NewConn example_window) (settings_header UNSET) 2
     (store_with SETTINGS_INITIAL_WINDOW_SIZE 70000)
     = Inr (FLOW_CONTROL_ERROR, (NewConn example_window)\<lparr>Conn.Settings := 2\<rparr>,
            store_with SETTINGS_INITIAL_WINDOW_SIZE 70000)
   \<and> (NewConn example_window)\<lparr>Conn.Settings := 2\<rparr> \<noteq> NewConn example_window
   \<and> store_with SETTINGS_INITIAL_WINDOW_SIZE 70000
        (Conn.Settings ((NewConn example_window)\<lparr>Conn.Settings := 2\<rparr>))
        SETTINGS_INITIAL_WINDOW_SIZE = Some 70000"
  by (simp add: HandleSettings_def Let_def flags_distinct settings_header_def store_with_def
      NewConn_def DefaultSettings_def UNSET_def ACK_def)

text \<open>
  C5. For a settings frame with no flags on which \<open>HandleSettings\<close> returns, it is the
  \<open>Settings\<close> field of the connection that afterwards refers to the frame's map, and the
  \<open>PeerSettings\<close> field still refers to the map it referred to before: \<open>PeerSettings\<close> is not
  replaced by the frame's parameter set, \<open>Settings\<close> is. (Line 84 writes the peer's initial
  window size into \<open>PeerSettings\<close>; line 71 stores the peer's map in \<open>Settings\<close>.)
\<close>

theorem HandleSettings_saves_into_Settings:
  assumes "Flags fh = UNSET"
      and "HandleSettings conn fh settings h = Inr (r, conn', h')"
  shows "Conn.Settings conn' = settings \<and> Conn.PeerSettings conn' = Conn.PeerSettings conn"
  using assms
  by (auto simp: HandleSettings_def Let_def flags_distinct send_ack_def
           split: option.splits if_splits sum.splits)

text \<open>
  A fresh connection receives a settings frame whose only parameter is a limit of 50
  concurrent streams. Afterwards \<open>Settings\<close> is the frame's map; \<open>PeerSettings\<close> is the default
  map, with its limit of 100 and without the 50.
\<close>

theorem HandleSettings_saves_into_Settings_witness:
  "Flags (settings_header UNSET) = UNSET
   \<and> HandleSettings (NewConn example_window) (settings_header UNSET) 2
       (store_with SETTINGS_MAX_CONCURRENT_STREAMS 50)
     = Inr (NoError,
            (NewConn example_window)
              \<lparr>Conn.Settings := 2,
               WriteChan := \<lparr>buf = [NewSettingsFrame ACK 0 NilSettings], closed = False\<rparr>\<rparr>,
            store_with SETTINGS_MAX_CONCURRENT_STREAMS 50)
   \<and> Conn.Settings ((NewConn example_window)
              \<lparr>Conn.Settings := 2,
               WriteChan := \<lparr>buf = [NewSettingsFrame ACK 0 NilSettings], closed = False\<rparr>\<rparr>) = 2
   \<and> Conn.PeerSettings ((NewConn example_window)
              \<lparr>Conn.Settings := 2,
               WriteChan := \<lparr>buf = [NewSettingsFrame ACK 0 NilSettings], closed = False\<rparr>\<rparr>)
       = DefaultSettings
   \<and> store_with SETTINGS_MAX_CONCURRENT_STREAMS 50 2 SETTINGS_MAX_CONCURRENT_STREAMS = Some 50
   \<and> store_with SETTINGS_MAX_CONCURRENT_STREAMS 50 DefaultSettings
        SETTINGS_MAX_CONCURRENT_STREAMS = Some 100"
proof -
  have a: "Flags (settings_header UNSET) = UNSET"
    by (simp add: settings_header_def)
  have b: "HandleSettings (NewConn example_window) (settings_header UNSET) 2
       (store_with SETTINGS_MAX_CONCURRENT_STREAMS 50)
     = Inr (NoError,
            (NewConn example_window)
              \<lparr>Conn.Settings := 2,
               WriteChan := \<lparr>buf = [NewSettingsFrame ACK 0 NilSettings], closed = False\<rparr>\<rparr>,
            store_with SETTINGS_MAX_CONCURRENT_STREAMS 50)"
    by (simp add: HandleSettings_def Let_def flags_distinct settings_header_def store_with_def
        NewConn_def send_ack_def send_def make_chan_def init_store_def DefaultSettings_def
        NilSettings_def)
  have c: "store_with SETTINGS_MAX_CONCURRENT_STREAMS 50 2 SETTINGS_MAX_CONCURRENT_STREAMS = Some 50
     \<and> store_with SETTINGS_MAX_CONCURRENT_STREAMS 50 DefaultSettings
        SETTINGS_MAX_CONCURRENT_STREAMS = Some 100"
    by (simp add: store_with_def init_store_def DefaultSettings_def NilSettings_def)
  show ?thesis
    using a b c HandleSettings_saves_into_Settings [OF a b]
    by (simp add: NewConn_def)
qed

subsection \<open>Shared settings maps\<close>

text \<open>
  C10. \<open>NewConn\<close> makes no copy: the \<open>Settings\<close> and the \<open>PeerSettings\<close> of every connection it
  builds are the package-level map \<open>DefaultSettings\<close> itself. So when such a connection handles
  a settings frame with no flags and an initial window size \<open>n\<close> of at most 65535, the
  assignment to \<open>PeerSettings\<close> writes \<open>n\<close> into \<open>DefaultSettings\<close>, and \<open>n\<close> is what every
  other connection built by \<open>NewConn\<close> then reads through its \<open>PeerSettings\<close> and its
  \<open>Settings\<close>.
\<close>

theorem NewConn_shares_DefaultSettings:
  assumes "Flags fh = UNSET"
      and "h settings SETTINGS_INITIAL_WINDOW_SIZE = Some n"
      and "sint n \<le> 65535"
  shows "Conn.Settings (NewConn w0) = DefaultSettings
       \<and> Conn.PeerSettings (NewConn w0) = DefaultSettings
       \<and> (\<exists>conn' h'. HandleSettings (NewConn w0) fh settings h = Inr (NoError, conn', h')
             \<and> h' DefaultSettings SETTINGS_INITIAL_WINDOW_SIZE = Some n
             \<and> h' (Conn.PeerSettings (NewConn w1)) SETTINGS_INITIAL_WINDOW_SIZE = Some n
             \<and> h' (Conn.Settings (NewConn w1)) SETTINGS_INITIAL_WINDOW_SIZE = Some n)"
  using assms
  by (simp add: HandleSettings_def Let_def flags_distinct NewConn_def send_ack_def send_def
      make_chan_def map_assign_def)

theorem NewConn_shares_DefaultSettings_witness:
  "Flags (settings_header UNSET) = UNSET
   \<and> store_with SETTINGS_INITIAL_WINDOW_SIZE 20000 2 SETTINGS_INITIAL_WINDOW_SIZE = Some 20000
   \<and> sint (20000 :: int32) \<le> 65535
   \<and> init_store DefaultSettings SETTINGS_INITIAL_WINDOW_SIZE = Some 65535
   \<and> (\<exists>conn' h'. HandleSettings (NewConn example_window) (settings_header UNSET) 2
                      (store_with SETTINGS_INITIAL_WINDOW_SIZE 20000) = Inr (NoError, conn', h')
          \<and> h' DefaultSettings SETTINGS_INITIAL_WINDOW_SIZE = Some 20000
          \<and> h' (Conn.PeerSettings (NewConn example_window)) SETTINGS_INITIAL_WINDOW_SIZE
              = Some 20000)"
proof -
  have a: "Flags (settings_header UNSET) = UNSET"
    by (simp add: settings_header_def)
  have b: "store_with SETTINGS_INITIAL_WINDOW_SIZE 20000 2 SETTINGS_INITIAL_WINDOW_SIZE = Some 20000"
    by (simp add: store_with_def)
  have c: "sint (20000 :: int32) \<le> 65535"
    by simp
  have d: "init_store DefaultSettings SETTINGS_INITIAL_WINDOW_SIZE = Some 65535"
    by (simp add: init_store_def DefaultSettings_def NilSettings_def DEFAULT_WINDOW_SIZE_def)
  show ?thesis
    using a b c d
      NewConn_shares_DefaultSettings
        [where fh = "settings_header UNSET" and settings = 2 and n = 20000
           and h = "store_with SETTINGS_INITIAL_WINDOW_SIZE 20000"
           and ?w0.0 = example_window and ?w1.0 = example_window]
    by blast
qed

text \<open>
  Against C10 as stated: one connection handles the settings frame, and the entry of the
  package-level \<open>DefaultSettings\<close> map changes from 65535 to 20000.
\<close>

theorem NewConn_shares_DefaultSettings_counterexample:
  "HandleSettings (NewConn example_window) (settings_header UNSET) 2
     (store_with SETTINGS_INITIAL_WINDOW_SIZE 20000)
     = Inr (NoError,
            (NewConn example_window)
              \<lparr>Conn.Window := rebase example_window 20000,
               Conn.Settings := 2,
               WriteChan := \<lparr>buf = [NewSettingsFrame ACK 0 NilSettings], closed = False\<rparr>\<rparr>,
            map_assign (store_with SETTINGS_INITIAL_WINDOW_SIZE 20000) DefaultSettings
              SETTINGS_INITIAL_WINDOW_SIZE 20000)
   \<and> store_with SETTINGS_INITIAL_WINDOW_SIZE 20000 DefaultSettings SETTINGS_INITIAL_WINDOW_SIZE
       = Some 65535
   \<and> map_assign (store_with SETTINGS_INITIAL_WINDOW_SIZE 20000) DefaultSettings
        SETTINGS_INITIAL_WINDOW_SIZE 20000 DefaultSettings SETTINGS_INITIAL_WINDOW_SIZE
       = Some 20000"
  by (simp add: HandleSettings_def Let_def flags_distinct settings_header_def store_with_def
      NewConn_def DefaultSettings_def UNSET_def ACK_def send_ack_def send_def make_chan_def
      map_assign_def init_store_def DEFAULT_WINDOW_SIZE_def NilSettings_def)

subsection \<open>Closed streams and the stream table\<close>

text \<open>
  C4. When the frame's stream is \<open>CLOSED\<close> after \<open>ChangeState\<close>, the table still has an entry
  under the stream identifier \<open>s\<close>, and its value is nil; a later frame with identifier \<open>s\<close>
  finds that entry, creates no stream, and panics on the nil pointer. So the table does hold
  an entry for \<open>s\<close>, and the later frame is not treated as one for an unseen identifier.
\<close>

theorem closed_stream_keeps_nil_entry:
  assumes "StreamID (Header frame) = s"
      and "\<forall>stream. State (cs stream frame) = CLOSED"
      and "on_stream cs w0 frame conn = Inr conn'"
      and "StreamID (Header frame2) = s"
  shows "map_of (Streams conn') s = Some None
       \<and> on_stream cs w0 frame2 conn' = Inl NilPointerDereference"
proof -
  have e: "map_of (Streams conn') s = Some None"
    using assms(1,2,3)
    by (auto simp: on_stream_def Let_def update_Some_unfold split: option.splits sum.splits)
  then show ?thesis
    using assms(4) by (simp add: on_stream_def Let_def)
qed

text \<open>
  The peer resets stream 1 on a fresh connection and then sends HEADERS for stream 1: the
  entry of stream 1 is nil after the first frame, and the loop panics on the second.
\<close>

theorem closed_stream_keeps_nil_entry_witness:
  "StreamID (Header rst_1) = 1
   \<and> (\<forall>stream. State (ChangeState_RECV stream rst_1) = CLOSED)
   \<and> on_stream ChangeState_RECV example_window rst_1 (NewConn example_window) = Inr conn_after_rst
   \<and> StreamID (Header headers_1) = 1
   \<and> map_of (Streams conn_after_rst) 1 = Some None
   \<and> on_stream ChangeState_RECV example_window headers_1 conn_after_rst
       = Inl NilPointerDereference
   \<and> ReadLoop ChangeState_RECV example_window [ReadFrame rst_1, ReadFrame headers_1]
       (NewConn example_window) init_store = Inl NilPointerDereference"
proof -
  have a: "StreamID (Header rst_1) = 1"
    by (simp add: rst_1_def frame_header_def)
  have b: "\<forall>stream. State (ChangeState_RECV stream rst_1) = CLOSED"
    by (simp add: ChangeState_RECV_def rst_1_def frame_header_def)
  have c: "on_stream ChangeState_RECV example_window rst_1 (NewConn example_window)
             = Inr conn_after_rst"
    by (simp add: on_stream_def Let_def send_def Conn_NewStream_def NewStream_def NewConn_def
        make_chan_def ChangeState_RECV_def rst_1_def frame_header_def conn_after_rst_def)
  have d: "StreamID (Header headers_1) = 1"
    by (simp add: headers_1_def frame_header_def)
  have e: "ReadLoop_step ChangeState_RECV example_window rst_1 (NewConn example_window) init_store
             = Inr (Continue, conn_after_rst, init_store)"
    by (simp add: ReadLoop_step_def on_settings_def on_window_update_def c)
       (simp add: rst_1_def frame_header_def)
  have f: "ReadLoop_step ChangeState_RECV example_window headers_1 conn_after_rst init_store
             = Inl NilPointerDereference"
    using closed_stream_keeps_nil_entry [OF a b c d]
    by (simp add: ReadLoop_step_def on_settings_def on_window_update_def)
       (simp add: headers_1_def frame_header_def)
  show ?thesis
    using a b c d closed_stream_keeps_nil_entry [OF a b c d]
    by (simp add: e f)
qed

subsection \<open>Connection termination\<close>







subsection \<open>The request and response adapter\<close>

lemma RecvResponse_loop_step:
  assumes "decoded frame"
  shows "RecvResponse_loop c header body (frame # fs) =
     (if Flags (Header frame) = 1 \<or> 50 < c
      then Some (Inr (last_headers header [frame], body @ payloads [frame], fs))
      else RecvResponse_loop (c + 1) (last_headers header [frame]) (body @ payloads [frame]) fs)"
  using assms by (cases frame) (auto split: FrameType.splits)

lemma last_headers_Cons:
  "last_headers (last_headers header [frame]) fs = last_headers header (frame # fs)"
  by (cases frame) auto

lemma payloads_Cons: "payloads [frame] @ payloads fs = payloads (frame # fs)"
  by (cases frame) auto

text \<open>
  The loop started with counter \<open>c\<close> reads up to and including the first frame whose flags are
  exactly \<open>0x1\<close>, and at most \<open>52 - c\<close> frames; with fewer frames than that it does not end.
\<close>

lemma RecvResponse_loop_reads:
  assumes "list_all decoded frames" and "0 \<le> c" and "c \<le> 51"
  shows "RecvResponse_loop c header body frames =
     (let n = min (nat (52 - c)) (Suc (length (takeWhile (\<lambda>f. Flags (Header f) \<noteq> 1) frames)))
      in if n \<le> length frames
         then Some (Inr (last_headers header (take n frames), body @ payloads (take n frames),
                         drop n frames))
         else None)"
  using assms
proof (induction frames arbitrary: c header body)
  case Nil
  then show ?case by (simp add: Let_def)
next
  case (Cons frame fs)
  have d: "decoded frame" and ds: "list_all decoded fs"
    using Cons.prems(1) by simp_all
  show ?case
  proof (cases "Flags (Header frame) = 1 \<or> 50 < c")
    case True
    then have "min (nat (52 - c))
                 (Suc (length (takeWhile (\<lambda>f. Flags (Header f) \<noteq> 1) (frame # fs)))) = 1"
      using Cons.prems(2,3) by (auto simp: min_def)
    then show ?thesis
      using True by (simp add: RecvResponse_loop_step [OF d] Let_def del: RecvResponse_loop.simps)
  next
    case False
    then have c: "0 \<le> c + 1" "c + 1 \<le> 51" and f: "Flags (Header frame) \<noteq> 1"
      using Cons.prems(2,3) by auto
    have n: "min (nat (52 - c))
               (Suc (length (takeWhile (\<lambda>f. Flags (Header f) \<noteq> 1) (frame # fs))))
           = Suc (min (nat (52 - (c + 1)))
                    (Suc (length (takeWhile (\<lambda>f. Flags (Header f) \<noteq> 1) fs))))"
      using f c Cons.prems(2) by (auto simp: min_def)
    show ?thesis
      using False
      by (simp only: RecvResponse_loop_step [OF d] if_False Cons.IH [OF ds c] n Let_def)
         (simp add: last_headers_Cons payloads_Cons
               del: RecvResponse_loop.simps last_headers.simps payloads.simps)
  qed
qed

lemma END_STREAM_alone_flags:
  "END_STREAM_alone frame \<Longrightarrow> (Flags (Header frame) \<noteq> 1) = (\<not> carries_END_STREAM frame)"
  by (auto simp: END_STREAM_alone_def carries_END_STREAM_def END_STREAM_def)

lemma takeWhile_END_STREAM_alone:
  "list_all END_STREAM_alone frames \<Longrightarrow>
     takeWhile (\<lambda>f. Flags (Header f) \<noteq> 1) frames
       = takeWhile (\<lambda>f. \<not> carries_END_STREAM f) frames"
  by (induction frames) (auto simp: END_STREAM_alone_flags)

text \<open>
  C6. For frames as the decoder returns them, in which end-of-stream never comes with
  another flag: \<open>RecvResponse\<close> ends exactly at the first frame that carries end-of-stream, or
  after 52 frames when none of the first 52 does (the bound is a constant of the code), and
  does not end when the frames run out before. The response has the header fields of the last
  HEADERS frame read (a later HEADERS frame replaces the fields of an earlier one) and, as its
  body, the payloads of the DATA frames read, in arrival order; the frames after the last one
  read are left.
\<close>

theorem RecvResponse_drains:
  assumes "list_all decoded frames"
      and "list_all END_STREAM_alone frames"
  shows "let n = drained frames in
         if n \<le> length frames then
           \<exists>resp. RecvResponse Atoi StatusText stream frames = Some (Inr (resp, drop n frames))
                \<and> Response.Header resp = last_headers Map.empty (take n frames)
                \<and> Response.Body resp = payloads (take n frames)
                \<and> ContentLength resp = int (length (payloads (take n frames)))
                \<and> (n = 52 \<or> carries_END_STREAM (frames ! (n - 1)))
                \<and> (\<forall>i < n - 1. \<not> carries_END_STREAM (frames ! i))
         else RecvResponse Atoi StatusText stream frames = None"
proof -
  let ?k = "length (takeWhile (\<lambda>frame. \<not> carries_END_STREAM frame) frames)"
  let ?n = "drained frames"
  have l: "RecvResponse_loop 0 Map.empty [] frames =
      (if ?n \<le> length frames
       then Some (Inr (last_headers Map.empty (take ?n frames), payloads (take ?n frames),
                       drop ?n frames))
       else None)"
    using RecvResponse_loop_reads [OF assms(1), of 0 Map.empty "[]"]
      takeWhile_END_STREAM_alone [OF assms(2)]
    by (simp add: Let_def drained_def)
  have e: "?n = 52 \<or> carries_END_STREAM (frames ! (?n - 1))" if a: "?n \<le> length frames"
  proof (cases "?n = 52")
    case True
    then show ?thesis by simp
  next
    case False
    then have n: "?n = Suc ?k"
      by (auto simp: drained_def min_def)
    then have "?k < length frames"
      using a by simp
    then have "\<not> \<not> carries_END_STREAM (frames ! ?k)"
      by (rule nth_length_takeWhile)
    then show ?thesis
      using n by simp
  qed
  have b: "\<forall>i < ?n - 1. \<not> carries_END_STREAM (frames ! i)"
  proof (intro allI impI)
    fix i
    assume "i < ?n - 1"
    then have i: "i < ?k"
      by (auto simp: drained_def min_def split: if_splits)
    then have "takeWhile (\<lambda>frame. \<not> carries_END_STREAM frame) frames ! i = frames ! i"
      by (rule takeWhile_nth)
    moreover have "takeWhile (\<lambda>frame. \<not> carries_END_STREAM frame) frames ! i
                     \<in> set (takeWhile (\<lambda>frame. \<not> carries_END_STREAM frame) frames)"
      using i by simp
    ultimately show "\<not> carries_END_STREAM (frames ! i)"
      by (auto dest: set_takeWhileD)
  qed
  show ?thesis
    using l e b by (simp add: Let_def RecvResponse_def)
qed

text \<open>
  A HEADERS frame, two DATA frames of which the second carries end-of-stream, and one more
  DATA frame: three frames are read, the body is the two payloads, the fourth frame is left.
\<close>

theorem RecvResponse_drains_witness:
  "list_all decoded response_frames
   \<and> list_all END_STREAM_alone response_frames
   \<and> drained response_frames = 3
   \<and> (\<exists>resp. RecvResponse example_Atoi example_StatusText example_stream response_frames
                = Some (Inr (resp, drop 3 response_frames))
          \<and> Response.Header resp = status_200
          \<and> Response.Body resp = [97, 98, 99]
          \<and> ContentLength resp = 3)"
proof -
  have a: "list_all decoded response_frames"
    by (simp add: response_frames_def frame_header_def)
  have b: "list_all END_STREAM_alone response_frames"
    by (simp add: response_frames_def frame_header_def END_STREAM_alone_def
        carries_END_STREAM_def END_STREAM_def END_HEADERS_def UNSET_def)
  have c: "drained response_frames = 3"
    by (simp add: drained_def response_frames_def frame_header_def carries_END_STREAM_def
        END_STREAM_def END_HEADERS_def UNSET_def)
  have d: "last_headers Map.empty (take 3 response_frames) = status_200
         \<and> payloads (take 3 response_frames) = [97, 98, 99]
         \<and> length response_frames = 4"
    by (simp add: response_frames_def)
  show ?thesis
    using a b c d
      RecvResponse_drains [OF a b, of example_Atoi example_StatusText example_stream]
    by (auto simp: Let_def)
qed

text \<open>
  Against C6 as stated: two HEADERS frames arrive, the first with a status field, the second
  with a trailer field and end-of-stream. The response carries the second frame's fields only;
  the status field of the first is not among them.
\<close>

theorem RecvResponse_drains_counterexample:
  "RecvResponse example_Atoi example_StatusText example_stream two_headers_frames
     = Some (Inr (\<lparr>Status = [], StatusCode = 0, Header = trailer, Body = [],
                   ContentLength = 0, Request = None\<rparr>, []))
   \<and> last_headers Map.empty two_headers_frames = trailer
   \<and> status_200 ''Status'' = Some [''200'']
   \<and> trailer ''Status'' = None"
  by (simp add: RecvResponse_def two_headers_frames_def frame_header_def END_HEADERS_def
      END_STREAM_def Header_Get_def trailer_def status_200_def example_Atoi_def
      example_StatusText_def example_stream_def)

text \<open>
  C7. \<open>SendRequest\<close> looks at the method of the request, not at its body. For GET it sends
  exactly one HEADERS frame, with end-of-stream and end-of-headers both set, carrying the
  encoded header block. For POST with a body it sends one HEADERS frame with end-of-headers
  only, then exactly one DATA frame without flags that carries all the body bytes, then one
  DATA frame of length zero with end-of-stream. For every other method it sends no frame.
  Each \<open>Length\<close> is the payload's length modulo \<open>2 ^ 16\<close>.
\<close>

theorem SendRequest_frames:
  "(Method r = ''GET'' \<longrightarrow>
      SendRequest enc stream r =
        (stream\<lparr>req := Some r\<rparr>,
         [HeadersFrame
            \<lparr>Length = length (enc (Request.Header r)) mod 2 ^ 16, Type = HeadersFrameType,
             Flags = END_STREAM + END_HEADERS, StreamID = Id stream\<rparr>
            (Request.Header r) (enc (Request.Header r))],
         None))
   \<and> (Method r = ''POST'' \<longrightarrow> Request.Body r = Some b \<longrightarrow>
      SendRequest enc stream r =
        (stream\<lparr>req := Some r\<rparr>,
         [HeadersFrame
            \<lparr>Length = length (enc (Request.Header r)) mod 2 ^ 16, Type = HeadersFrameType,
             Flags = END_HEADERS, StreamID = Id stream\<rparr>
            (Request.Header r) (enc (Request.Header r)),
          DataFrame
            \<lparr>Length = length b mod 2 ^ 16, Type = DataFrameType, Flags = 0,
             StreamID = Id stream\<rparr> b,
          DataFrame
            \<lparr>Length = 0, Type = DataFrameType, Flags = END_STREAM, StreamID = Id stream\<rparr> []],
         None))
   \<and> (Method r \<noteq> ''GET'' \<longrightarrow> Method r \<noteq> ''POST'' \<longrightarrow>
      SendRequest enc stream r = (stream\<lparr>req := Some r\<rparr>, [], None))
   \<and> and (END_STREAM + END_HEADERS) END_STREAM = END_STREAM
   \<and> and (END_STREAM + END_HEADERS) END_HEADERS = END_HEADERS
   \<and> and END_HEADERS END_STREAM = 0"
  by (simp add: SendRequest_def Let_def NewHeadersFrame_def NewDataFrame_def END_STREAM_def
      END_HEADERS_def)

theorem SendRequest_frames_witness:
  "Method get_request = ''GET''
   \<and> SendRequest example_EncodeHeader example_stream get_request =
        (example_stream\<lparr>req := Some get_request\<rparr>,
         [HeadersFrame \<lparr>Length = 2, Type = HeadersFrameType, Flags = 5, StreamID = 1\<rparr>
            request_header [130, 134]],
         None)
   \<and> Method post_request = ''POST''
   \<and> Request.Body post_request = Some [97, 98]
   \<and> SendRequest example_EncodeHeader example_stream post_request =
        (example_stream\<lparr>req := Some post_request\<rparr>,
         [HeadersFrame \<lparr>Length = 2, Type = HeadersFrameType, Flags = 4, StreamID = 1\<rparr>
            request_header [130, 134],
          DataFrame \<lparr>Length = 2, Type = DataFrameType, Flags = 0, StreamID = 1\<rparr> [97, 98],
          DataFrame \<lparr>Length = 0, Type = DataFrameType, Flags = 1, StreamID = 1\<rparr> []],
         None)"
proof -
  have a: "Method get_request = ''GET''"
    by (simp add: get_request_def)
  have b: "Method post_request = ''POST''"
    by (simp add: post_request_def)
  have c: "Request.Body post_request = Some [97, 98]"
    by (simp add: post_request_def)
  have d: "Request.Header get_request = request_header"
          "Request.Header post_request = request_header"
          "example_EncodeHeader request_header = [130, 134]"
          "Id example_stream = 1"
    by (simp_all add: get_request_def post_request_def example_EncodeHeader_def
        example_stream_def)
  show ?thesis
    using a b c
      SendRequest_frames [of get_request example_EncodeHeader example_stream "[97, 98]"]
      SendRequest_frames [of post_request example_EncodeHeader example_stream "[97, 98]"]
    by (simp add: d END_STREAM_def END_HEADERS_def)
qed

text \<open>
  Against C7 as stated: a HEAD request has no body, and \<open>SendRequest\<close> sends no frame for it.
\<close>

theorem SendRequest_frames_counterexample:
  "Request.Body head_request = None
   \<and> SendRequest example_EncodeHeader example_stream head_request
       = (example_stream\<lparr>req := Some head_request\<rparr>, [], None)"
  by (simp add: SendRequest_def Let_def head_request_def)

end
